theory Spec2Isabelle
  imports Complex_Main
begin

section \<open>The linearization engine: \<open>ct::core::Sensitivity\<close>\<close>

text \<open>
  \<open>SensitivityApproximationSettings::APPROXIMATION\<close>, in the order of the source
  (\<open>FORWARD_EULER = 0\<close>, then counting up).
\<close>

datatype APPROXIMATION =
    FORWARD_EULER
  | BACKWARD_EULER
  | SYMPLECTIC_EULER
  | TUSTIN
  | MATRIX_EXPONENTIAL

text \<open>
  \<open>struct SensitivityApproximationSettings\<close>: the two public fields, and the constructor,
  which copies its arguments into them and checks nothing. The \<open>double\<close> time step is
  modelled as a real number.
\<close>

record SensitivityApproximationSettings_rec =
  dt_m :: real
  approximation_m :: APPROXIMATION

definition SensitivityApproximationSettings ::
  "real \<Rightarrow> APPROXIMATION \<Rightarrow> SensitivityApproximationSettings_rec" where
  "SensitivityApproximationSettings dt approx = \<lparr>dt_m = dt, approximation_m = approx\<rparr>"

text \<open>
  A raw pointer is an address or \<open>nullptr\<close> (\<open>None\<close>). The buffers the pointers refer to
  live in a store owned by the caller; the engine holds the two pointers only. The record
  is extensible: the fields a subclass adds are its \<open>more\<close> part. A name cannot end
  in an underscore here, so the member \<open>xSubstep_\<close> of the source is \<open>xSubstep_m\<close>, and
  so on for every member.
\<close>

type_synonym addr = nat

record Sensitivity =
  xSubstep_m :: "addr option"
  uSubstep_m :: "addr option"

text \<open>The constructor \<open>Sensitivity()\<close> sets both pointers to \<open>nullptr\<close>.\<close>

definition Sensitivity_ctor :: Sensitivity where
  "Sensitivity_ctor = \<lparr>xSubstep_m = None, uSubstep_m = None\<rparr>"

text \<open>The exceptions of the C++ code, with the message of \<open>std::runtime_error\<close>.\<close>

datatype exn = runtime_error string

text \<open>
  \<open>clone() const\<close>: the body is a single \<open>throw\<close>; no object is returned on any path.
\<close>

definition clone :: "'z Sensitivity_scheme \<Rightarrow> exn + 'z Sensitivity_scheme" where
  "clone this = Inl (runtime_error ''clone not implemented for Sensitivity'')"

text \<open>
  \<open>setApproximation(approx)\<close>: virtual, and the body given in this class is empty: the
  call returns normally and the object is what it was.
\<close>

definition setApproximation ::
  "APPROXIMATION \<Rightarrow> 'z Sensitivity_scheme \<Rightarrow> exn + 'z Sensitivity_scheme" where
  "setApproximation approx this = Inr this"

text \<open>
  \<open>setSubstepTrajectoryReference(xSubstep, uSubstep)\<close>: two pointer assignments. The
  function is modelled on the engine together with the store of buffers \<open>'b\<close>, which it
  never reads or writes.
\<close>

definition setSubstepTrajectoryReference ::
  "addr option \<Rightarrow> addr option \<Rightarrow> 'z Sensitivity_scheme \<times> (addr \<rightharpoonup> 'b)
     \<Rightarrow> 'z Sensitivity_scheme \<times> (addr \<rightharpoonup> 'b)" where
  "setSubstepTrajectoryReference xSubstep uSubstep w =
     (case w of (this, store) \<Rightarrow>
        ((this\<lparr>xSubstep_m := xSubstep\<rparr>)\<lparr>uSubstep_m := uSubstep\<rparr>, store))"

section \<open>The solver shell: \<open>ct::optcon::NLOptConSolver\<close>\<close>

text \<open>
  \<open>prepare()\<close> and \<open>finishSolve()\<close> are pure virtual: the derived solver supplies them.
  They are parameters of the model, acting on the solver's state \<open>'s\<close>; either may throw
  (\<open>Inl\<close>), and \<open>finishSolve\<close> returns its \<open>bool\<close> with the new state.

  \<open>solve()\<close> is the loop \<open>while (!solved) { prepare(); solved = finishSolve(); }\<close>
  followed by \<open>return solved\<close>. Nothing bounds the number of rounds, so the loop is a
  partial function: \<open>None\<close> is a run that never returns. The model also keeps the log of
  the calls the loop has made, in order.
\<close>

datatype call = Prepare | FinishSolve bool

partial_function (option) solve_loop ::
  "('s \<Rightarrow> 'e + 's) \<Rightarrow> ('s \<Rightarrow> 'e + bool \<times> 's) \<Rightarrow> bool \<Rightarrow> 's \<Rightarrow> call list
     \<Rightarrow> ('e + bool \<times> 's \<times> call list) option" where
  "solve_loop prepare finishSolve solved s calls =
     (if \<not> solved then
        (case prepare s of
           Inl e \<Rightarrow> Some (Inl e)
         | Inr s1 \<Rightarrow>
            (case finishSolve s1 of
               Inl e \<Rightarrow> Some (Inl e)
             | Inr r \<Rightarrow>
                 solve_loop prepare finishSolve (fst r) (snd r)
                   (calls @ [Prepare, FinishSolve (fst r)])))
      else Some (Inr (solved, s, calls)))"

definition solve ::
  "('s \<Rightarrow> 'e + 's) \<Rightarrow> ('s \<Rightarrow> 'e + bool \<times> 's) \<Rightarrow> 's
     \<Rightarrow> ('e + bool \<times> 's \<times> call list) option" where
  "solve prepare finishSolve s = solve_loop prepare finishSolve False s []"

text \<open>
  The read accessors. Each body is one forwarding call through \<open>nlocBackend_\<close>, a
  \<open>std::shared_ptr\<close>: empty (\<open>None\<close>) or pointing to the backend object. The class
  \<open>NLOCBackendBase\<close> is not part of these sources, so the backend's accessor is a
  parameter of each function: it reads the backend object \<open>'b\<close> and returns a value or
  throws \<open>'x\<close>. Dereferencing an empty pointer is undefined behaviour in C++; the model
  marks it as the fault \<open>null_dereference\<close>. Nothing else is tested before the call.
\<close>

datatype 'x fault = null_dereference | thrown 'x

record 'b NLOptConSolver =
  nlocBackend_m :: "'b option"

text \<open>The constructor \<open>NLOptConSolver() {}\<close> default-initialises the pointer: it is empty.\<close>

definition NLOptConSolver_ctor :: "'b NLOptConSolver" where
  "NLOptConSolver_ctor = \<lparr>nlocBackend_m = None\<rparr>"

definition arrow :: "'b option \<Rightarrow> ('b \<Rightarrow> 'x + 'a) \<Rightarrow> 'x fault + 'a" where
  "arrow p method =
     (case p of
        None \<Rightarrow> Inl null_dereference
      | Some b \<Rightarrow> (case method b of Inl x \<Rightarrow> Inl (thrown x) | Inr v \<Rightarrow> Inr v))"

definition getSolution ::
  "('b \<Rightarrow> 'x + 'pol) \<Rightarrow> ('b, 'z) NLOptConSolver_scheme \<Rightarrow> 'x fault + 'pol" where
  "getSolution backend_getSolution this = arrow (nlocBackend_m this) backend_getSolution"

definition getStateTrajectory ::
  "('b \<Rightarrow> 'x + 'xs) \<Rightarrow> ('b, 'z) NLOptConSolver_scheme \<Rightarrow> 'x fault + 'xs" where
  "getStateTrajectory backend_getStateTrajectory this =
     arrow (nlocBackend_m this) backend_getStateTrajectory"

definition getControlTrajectory ::
  "('b \<Rightarrow> 'x + 'us) \<Rightarrow> ('b, 'z) NLOptConSolver_scheme \<Rightarrow> 'x fault + 'us" where
  "getControlTrajectory backend_getControlTrajectory this =
     arrow (nlocBackend_m this) backend_getControlTrajectory"

definition getTimeArray ::
  "('b \<Rightarrow> 'x + 'ts) \<Rightarrow> ('b, 'z) NLOptConSolver_scheme \<Rightarrow> 'x fault + 'ts" where
  "getTimeArray backend_getTimeArray this = arrow (nlocBackend_m this) backend_getTimeArray"

definition getTimeHorizon ::
  "('b \<Rightarrow> 'x + 'sc) \<Rightarrow> ('b, 'z) NLOptConSolver_scheme \<Rightarrow> 'x fault + 'sc" where
  "getTimeHorizon backend_getTimeHorizon this =
     arrow (nlocBackend_m this) backend_getTimeHorizon"

definition getCost ::
  "('b \<Rightarrow> 'x + 'sc) \<Rightarrow> ('b, 'z) NLOptConSolver_scheme \<Rightarrow> 'x fault + 'sc" where
  "getCost backend_getCost this = arrow (nlocBackend_m this) backend_getCost"

text \<open>
  A backend stub for running the accessors: it counts the iterations it has completed
  and holds one value per accessor. Its accessors return the stored values and test
  nothing.
\<close>

record stub_backend =
  iterations_done :: nat
  policy :: "int list"
  states :: "int list"
  controls :: "int list"
  time_stamps :: "int list"
  horizon :: int
  cost :: int

definition fresh_stub :: stub_backend where
  "fresh_stub = \<lparr>iterations_done = 0, policy = [], states = [], controls = [],
     time_stamps = [], horizon = 0, cost = 0\<rparr>"

definition stub_solver :: "stub_backend NLOptConSolver" where
  "stub_solver = \<lparr>nlocBackend_m = Some fresh_stub\<rparr>"

section \<open>Parts modelled from the specification\<close>

text \<open>
  \<open>configure\<close> and \<open>getAandB\<close> are pure virtual in the two classes above (\<open>= 0\<close>): the
  sources hold their declarations only, and the subclasses that implement them are not
  among them. What follows models them from the specification, over the real numbers.
\<close>

text \<open>
  Modelled from the spec: the error taxonomy of section 7; the sources declare no error
  type of their own.
\<close>

datatype core_error =
    ConfigurationError
  | UnsupportedApproximationError
  | SingularMatrixError
  | NotInitializedError
  | BorrowedReferenceViolation

subsection \<open>\<open>configure\<close>\<close>

text \<open>
  Modelled from the spec: the settings type \<open>Settings_t\<close>, a template parameter in the
  source. It is the settings struct above (time step and scheme) together with the
  dimensions the settings were made for, which section 4.1 has \<open>configure\<close> compare with
  the problem's.
\<close>

record solver_settings = SensitivityApproximationSettings_rec +
  state_dim :: nat
  control_dim :: nat

text \<open>
  Modelled from the spec: the state of the solver shell that \<open>configure\<close> writes, which is
  the settings it has stored, if any, and the backend it forwards to (section 2).
\<close>

record 'b SolverShell =
  stored_settings :: "solver_settings option"
  backend :: 'b

text \<open>
  Modelled from the spec: the body of \<open>configure(settings)\<close>, missing from the sources.
  Section 4.1: "validates and stores settings, propagates to Backend; fails with a
  configuration error if dt \<le> 0 or dimensions mismatch". \<open>STATE_DIM\<close> and
  \<open>CONTROL_DIM\<close> are the template parameters of the solver; the backend's own
  \<open>configure\<close> is a parameter.
\<close>

definition configure ::
  "nat \<Rightarrow> nat \<Rightarrow> (solver_settings \<Rightarrow> 'b \<Rightarrow> 'b) \<Rightarrow> solver_settings \<Rightarrow> 'b SolverShell
     \<Rightarrow> core_error + 'b SolverShell" where
  "configure STATE_DIM CONTROL_DIM backend_configure settings this =
     (if dt_m settings \<le> 0 \<or> state_dim settings \<noteq> STATE_DIM
           \<or> control_dim settings \<noteq> CONTROL_DIM
      then Inl ConfigurationError
      else Inr (this\<lparr>stored_settings := Some settings,
                       backend := backend_configure settings (backend this)\<rparr>))"

subsection \<open>Matrices\<close>

text \<open>
  Modelled from the spec: the matrices \<open>A_c\<close>, \<open>B_c\<close>, \<open>A_d\<close>, \<open>B_d\<close> of section 3, as lists
  of rows of real numbers (the source's \<open>StateMatrix\<close> and \<open>StateControlMatrix\<close> are
  declared elsewhere).
\<close>

type_synonym mat = "real list list"

text \<open>Modelled from the spec: the number of columns of a matrix.\<close>

definition cols :: "mat \<Rightarrow> nat" where
  "cols M = (case M of [] \<Rightarrow> 0 | r # _ \<Rightarrow> length r)"

text \<open>Modelled from the spec: the identity matrix \<open>I\<close> of section 4.3.\<close>

definition mat_identity :: "nat \<Rightarrow> mat" where
  "mat_identity n = map (\<lambda>i. map (\<lambda>j. if i = j then 1 else 0) [0..<n]) [0..<n]"

text \<open>Modelled from the spec: the sum of two matrices of the same shape.\<close>

definition mat_add :: "mat \<Rightarrow> mat \<Rightarrow> mat" where
  "mat_add A B = map2 (map2 (+)) A B"

text \<open>Modelled from the spec: the difference of two matrices of the same shape.\<close>

definition mat_sub :: "mat \<Rightarrow> mat \<Rightarrow> mat" where
  "mat_sub A B = map2 (map2 (-)) A B"

text \<open>Modelled from the spec: a matrix times a scalar, as in \<open>dt\<cdot>A_c\<close>.\<close>

definition mat_scale :: "real \<Rightarrow> mat \<Rightarrow> mat" where
  "mat_scale c A = map (map ((*) c)) A"

text \<open>Modelled from the spec: the matrix product.\<close>

definition mat_mul :: "mat \<Rightarrow> mat \<Rightarrow> mat" where
  "mat_mul A B =
     map (\<lambda>r. map (\<lambda>j. (\<Sum>k\<leftarrow>[0..<length B]. r ! k * B ! k ! j)) [0..<cols B]) A"

text \<open>Modelled from the spec: a matrix without its row \<open>i\<close> and its column \<open>j\<close>.\<close>

definition minor :: "nat \<Rightarrow> nat \<Rightarrow> mat \<Rightarrow> mat" where
  "minor i j M = map (\<lambda>r. take j r @ drop (Suc j) r) (take i M @ drop (Suc i) M)"

text \<open>
  Modelled from the spec: the determinant, by expansion along the first row. A square
  matrix is "exactly singular" (section 8) when its determinant is zero.
\<close>

function det :: "mat \<Rightarrow> real" where
  "det [] = 1"
| "det (r # rs) = (\<Sum>j\<leftarrow>[0..<length r]. (- 1) ^ j * r ! j * det (minor 0 j (r # rs)))"
  by pat_completeness auto
termination
  by (relation "measure length") (auto simp: minor_def)

text \<open>
  Modelled from the spec: the inverse \<open>M^-1\<close> of section 4.3, which a singular matrix
  does not have; otherwise the transposed matrix of cofactors over the determinant.
\<close>

definition mat_inverse :: "mat \<Rightarrow> mat option" where
  "mat_inverse M =
     (if det M = 0 then None
      else Some (map (\<lambda>i. map (\<lambda>j. (- 1) ^ (i + j) * det (minor j i M) / det M)
                   [0..<length M]) [0..<length M]))"

text \<open>Modelled from the spec: the powers of a square matrix.\<close>

primrec mat_pow :: "mat \<Rightarrow> nat \<Rightarrow> mat" where
  "mat_pow M 0 = mat_identity (length M)"
| "mat_pow M (Suc k) = mat_mul M (mat_pow M k)"

text \<open>
  Modelled from the spec: the matrix exponential \<open>exp(M)\<close> of section 4.3, entry by entry
  the sum of the series of \<open>M^k / k!\<close>.
\<close>

definition mat_exp :: "mat \<Rightarrow> mat" where
  "mat_exp M =
     map (\<lambda>i. map (\<lambda>j. (\<Sum>k. mat_pow M k ! i ! j / fact k)) [0..<length M]) [0..<length M]"

subsection \<open>The discretization schemes and \<open>getAandB\<close>\<close>

text \<open>
  Modelled from the spec: the ForwardEuler row of the table of section 4.3,
  \<open>A_d = I + dt\<cdot>A_c\<close> and \<open>B_d = dt\<cdot>B_c\<close>.
\<close>

definition forwardEuler :: "real \<Rightarrow> mat \<Rightarrow> mat \<Rightarrow> core_error + mat \<times> mat" where
  "forwardEuler dt Ac Bc =
     Inr (mat_add (mat_identity (length Ac)) (mat_scale dt Ac), mat_scale dt Bc)"

text \<open>
  Modelled from the spec: the BackwardEuler row, \<open>A_d = (I - dt\<cdot>A_c)^-1\<close> and
  \<open>B_d = A_d\<cdot>dt\<cdot>B_c\<close>, with the SingularMatrixError of sections 7 and 8 when the
  matrix to invert is singular.
\<close>

definition backwardEuler :: "real \<Rightarrow> mat \<Rightarrow> mat \<Rightarrow> core_error + mat \<times> mat" where
  "backwardEuler dt Ac Bc =
     (case mat_inverse (mat_sub (mat_identity (length Ac)) (mat_scale dt Ac)) of
        None \<Rightarrow> Inl SingularMatrixError
      | Some Ad \<Rightarrow> Inr (Ad, mat_mul Ad (mat_scale dt Bc)))"

text \<open>
  Modelled from the spec: the Tustin row, \<open>A_d = (I - dt/2\<cdot>A_c)^-1 (I + dt/2\<cdot>A_c)\<close> and
  \<open>B_d = (I - dt/2\<cdot>A_c)^-1\<cdot>dt\<cdot>B_c\<close>, with "the same singularity failure mode as
  BackwardEuler".
\<close>

definition tustin :: "real \<Rightarrow> mat \<Rightarrow> mat \<Rightarrow> core_error + mat \<times> mat" where
  "tustin dt Ac Bc =
     (case mat_inverse (mat_sub (mat_identity (length Ac)) (mat_scale (dt / 2) Ac)) of
        None \<Rightarrow> Inl SingularMatrixError
      | Some Mi \<Rightarrow>
          Inr (mat_mul Mi (mat_add (mat_identity (length Ac)) (mat_scale (dt / 2) Ac)),
               mat_mul Mi (mat_scale dt Bc)))"

text \<open>
  Modelled from the spec: the augmented matrix of the MatrixExponential row, \<open>A_c\<close> and
  \<open>B_c\<close> side by side over rows of zeros; the exponential of \<open>dt\<close> times it holds \<open>A_d\<close>
  and \<open>B_d\<close> side by side in its upper rows.
\<close>

definition augmented :: "mat \<Rightarrow> mat \<Rightarrow> mat" where
  "augmented Ac Bc =
     map2 (@) Ac Bc @ replicate (cols Bc) (replicate (length Ac + cols Bc) 0)"

text \<open>
  Modelled from the spec: the MatrixExponential row, \<open>A_d = exp(dt\<cdot>A_c)\<close> and
  \<open>B_d = A_c^-1 (A_d - I) B_c\<close>, "or via augmented-matrix exponential when A_c singular".
\<close>

definition matrixExponential :: "real \<Rightarrow> mat \<Rightarrow> mat \<Rightarrow> core_error + mat \<times> mat" where
  "matrixExponential dt Ac Bc =
     (let Ad = mat_exp (mat_scale dt Ac) in
      case mat_inverse Ac of
        Some Ai \<Rightarrow> Inr (Ad, mat_mul Ai (mat_mul (mat_sub Ad (mat_identity (length Ac))) Bc))
      | None \<Rightarrow>
          Inr (Ad, map (drop (length Ac))
                     (take (length Ac) (mat_exp (mat_scale dt (augmented Ac Bc))))))"

text \<open>
  Modelled from the spec: the "single pure discretization function" of section 9,
  selecting the scheme. The specification gives no formula for SymplecticEuler
  ("structure-split update", an open question in section 9), so that update is a
  parameter.
\<close>

definition discretize ::
  "(real \<Rightarrow> mat \<Rightarrow> mat \<Rightarrow> core_error + mat \<times> mat) \<Rightarrow> APPROXIMATION \<Rightarrow> real \<Rightarrow> mat \<Rightarrow> mat
     \<Rightarrow> core_error + mat \<times> mat" where
  "discretize symplecticEuler scheme dt Ac Bc =
     (case scheme of
        FORWARD_EULER \<Rightarrow> forwardEuler dt Ac Bc
      | BACKWARD_EULER \<Rightarrow> backwardEuler dt Ac Bc
      | SYMPLECTIC_EULER \<Rightarrow> symplecticEuler dt Ac Bc
      | TUSTIN \<Rightarrow> tustin dt Ac Bc
      | MATRIX_EXPONENTIAL \<Rightarrow> matrixExponential dt Ac Bc)"

text \<open>
  Modelled from the spec: the state of the linearization engine of section 2, which is
  the two substep references of the source class together with the current settings
  and the continuous model that \<open>setLinearSystem\<close> injected, a function from the
  linearization point to \<open>(A_c, B_c)\<close>.
\<close>

record ('x, 'u) LinearizationEngine = Sensitivity +
  settings :: SensitivityApproximationSettings_rec
  linearSystem :: "'x \<Rightarrow> 'u \<Rightarrow> int \<Rightarrow> mat \<times> mat"

text \<open>
  Modelled from the spec: the body of \<open>getAandB(x, u, x_next, n, numSteps)\<close>, missing from
  the sources. Section 4.2: it produces "the discrete linear model at trajectory step n
  for the currently configured scheme", one pair per call; section 7: a numerical
  failure is its outcome, with no value put in its place.
\<close>

definition getAandB ::
  "(real \<Rightarrow> mat \<Rightarrow> mat \<Rightarrow> core_error + mat \<times> mat) \<Rightarrow> ('x, 'u) LinearizationEngine
     \<Rightarrow> 'x \<Rightarrow> 'u \<Rightarrow> 'x \<Rightarrow> int \<Rightarrow> nat \<Rightarrow> core_error + mat \<times> mat" where
  "getAandB symplecticEuler this x u x_next n numSteps =
     (case linearSystem this x u n of
        (Ac, Bc) \<Rightarrow>
          discretize symplecticEuler (approximation_m (settings this))
            (dt_m (settings this)) Ac Bc)"

section \<open>Properties of the linearization engine\<close>

text \<open>
  C10. For every Sensitivity instance, in every state, \<open>clone()\<close> raises the runtime error
  "clone not implemented for Sensitivity" and never returns a copy.
\<close>

theorem clone_always_throws:
  "clone this = Inl (runtime_error ''clone not implemented for Sensitivity'')
   \<and> (\<nexists>copy. clone this = Inr copy)"
  by (simp add: clone_def)

text \<open>
  C9. \<open>setSubstepTrajectoryReference\<close> returns normally for arbitrary pointer arguments,
  null included; afterwards the two stored references are exactly the given pointers,
  every other part of the engine is as before, and the store of buffers is untouched
  (no validation, copy or resize).
\<close>

theorem setSubstepTrajectoryReference_frame:
  "setSubstepTrajectoryReference xp up (this, store) =
     (this\<lparr>xSubstep_m := xp, uSubstep_m := up\<rparr>, store)
   \<and> xSubstep_m (fst (setSubstepTrajectoryReference xp up (this, store))) = xp
   \<and> uSubstep_m (fst (setSubstepTrajectoryReference xp up (this, store))) = up
   \<and> Sensitivity.more (fst (setSubstepTrajectoryReference xp up (this, store)))
       = Sensitivity.more this
   \<and> snd (setSubstepTrajectoryReference xp up (this, store)) = store"
  by (simp add: setSubstepTrajectoryReference_def)

text \<open>
  C3 as stated fails: on a freshly constructed engine a request for \<open>SYMPLECTIC_EULER\<close>
  and a request for \<open>TUSTIN\<close> both return normally and leave the very same engine, so
  the call neither fails nor records which scheme was asked for.
\<close>

theorem setApproximation_counterexample:
  "setApproximation SYMPLECTIC_EULER Sensitivity_ctor = Inr Sensitivity_ctor
   \<and> setApproximation TUSTIN Sensitivity_ctor = Inr Sensitivity_ctor"
  by (simp add: setApproximation_def)

text \<open>
  C3, amended. \<open>Sensitivity::setApproximation\<close> as this class defines it accepts every
  scheme value, never fails, and returns the engine unchanged (both substep references
  and the subclass part), whatever scheme is asked for; switching the scheme is left to
  a subclass that overrides it.
\<close>

theorem setApproximation_no_effect:
  "setApproximation approx this = Inr this
   \<and> setApproximation approx this = setApproximation approx' this"
  by (simp add: setApproximation_def)

section \<open>Properties of the solver shell\<close>

text \<open>
  What a returning run of the loop looks like: the value is \<open>true\<close>; a loop entered with
  \<open>solved\<close> set makes no call; otherwise the calls are some rounds that did not
  converge and a last one that did.
\<close>

lemma solve_loop_returns:
  assumes run: "solve_loop prepare finishSolve solved s calls = Some r"
  shows "case r of
           Inl e \<Rightarrow> True
         | Inr t \<Rightarrow> fst t \<and> (if solved then fst (snd t) = s \<and> snd (snd t) = calls
              else \<exists>n s1. snd (snd t) = calls @ concat (replicate n [Prepare, FinishSolve False])
                              @ [Prepare, FinishSolve True]
                          \<and> finishSolve s1 = Inr (True, fst (snd t)))"
proof (rule solve_loop.raw_induct
    [where P = "\<lambda>prepare finishSolve solved s calls r.
       case r of
         Inl e \<Rightarrow> True
       | Inr t \<Rightarrow> fst t \<and> (if solved then fst (snd t) = s \<and> snd (snd t) = calls
            else \<exists>n s1. snd (snd t) = calls @ concat (replicate n [Prepare, FinishSolve False])
                            @ [Prepare, FinishSolve True]
                        \<and> finishSolve s1 = Inr (True, fst (snd t)))",
     OF _ run], goal_cases)
  case (1 loop prepare finishSolve solved s calls r)
  show ?case
  proof (cases r)
    case (Inl e)
    then show ?thesis by simp
  next
    case r: (Inr t)
    show ?thesis
    proof (cases solved)
      case True
      with 1(2) r show ?thesis by auto
    next
      case False
      from 1(2) False r obtain s1 where s1: "prepare s = Inr s1"
        by (cases "prepare s") auto
      from 1(2) False r s1 obtain p where p: "finishSolve s1 = Inr p"
        by (cases "finishSolve s1") auto
      from 1(2) False s1 p
      have rec: "loop prepare finishSolve (fst p) (snd p) (calls @ [Prepare, FinishSolve (fst p)])
                   = Some r"
        by simp
      note ih = 1(1)[OF rec, unfolded r, simplified]
      show ?thesis
      proof (cases "fst p")
        case True
        with ih have t: "fst t" "fst (snd t) = snd p" "snd (snd t) = calls @ [Prepare, FinishSolve True]"
          by simp_all
        from p True t(2) have "finishSolve s1 = Inr (True, fst (snd t))"
          by (cases p) simp
        with t(1) t(3) have "fst t \<and> snd (snd t) = calls @ concat (replicate 0 [Prepare, FinishSolve False])
                            @ [Prepare, FinishSolve True]
                        \<and> finishSolve s1 = Inr (True, fst (snd t))"
          by simp
        with False r show ?thesis by (simp del: replicate.simps) blast
      next
        case F: False
        with ih obtain n s1' where t: "fst t"
          "snd (snd t) = (calls @ [Prepare, FinishSolve False])
              @ concat (replicate n [Prepare, FinishSolve False]) @ [Prepare, FinishSolve True]"
          "finishSolve s1' = Inr (True, fst (snd t))"
          by auto
        from t(2) have "snd (snd t) = calls @ concat (replicate (Suc n) [Prepare, FinishSolve False])
             @ [Prepare, FinishSolve True]"
          by simp
        with t(1) t(3) False r show ?thesis by (simp del: replicate.simps append_assoc append.simps) blast
      qed
    qed
  qed
qed

lemma solve_loop_stuck:
  assumes run: "solve_loop prepare finishSolve solved s calls = Some y"
  shows "(\<forall>s. \<exists>s'. prepare s = Inr s') \<longrightarrow> (\<forall>s. \<exists>s'. finishSolve s = Inr (False, s'))
           \<longrightarrow> solved"
proof (rule solve_loop.raw_induct
    [where P = "\<lambda>prepare finishSolve solved s calls r.
       (\<forall>s. \<exists>s'. prepare s = Inr s') \<longrightarrow> (\<forall>s. \<exists>s'. finishSolve s = Inr (False, s'))
         \<longrightarrow> solved", OF _ run], goal_cases)
  case (1 loop prepare finishSolve solved s calls y)
  show ?case
  proof (intro impI)
    assume p: "\<forall>s. \<exists>s'. prepare s = Inr s'"
      and f: "\<forall>s. \<exists>s'. finishSolve s = Inr (False, s')"
    show solved
    proof (rule ccontr)
      assume ns: "\<not> solved"
      from p obtain s1 where s1: "prepare s = Inr s1" by blast
      from f obtain s2 where s2: "finishSolve s1 = Inr (False, s2)" by blast
      from 1(2) ns s1 s2
      have "loop prepare finishSolve False s2 (calls @ [Prepare, FinishSolve False]) = Some y"
        by simp
      from 1(1)[OF this] p f show False by simp
    qed
  qed
qed

text \<open>
  C1. With a backend whose \<open>prepare\<close> always returns and whose \<open>finishSolve\<close> always
  returns \<open>false\<close>, \<open>solve()\<close> does not return at all: no round ends the loop, and no
  outcome \<open>false\<close> is ever produced. (The claim asks for a return of \<open>false\<close> after
  finitely many rounds; the documentation of \<open>solve\<close> in the source promises
  "false otherwise" too.)
\<close>

theorem solve_never_converging:
  assumes "\<And>s. \<exists>s'. prepare s = Inr s'"
    and "\<And>s. \<exists>s'. finishSolve s = Inr (False, s')"
  shows "solve prepare finishSolve s = None"
proof (cases "solve prepare finishSolve s")
  case None
  then show ?thesis .
next
  case (Some y)
  then have "solve_loop prepare finishSolve False s [] = Some y"
    by (simp add: solve_def)
  from solve_loop_stuck[OF this] assms show ?thesis by blast
qed

theorem solve_never_converging_witness:
  "solve (\<lambda>k::nat. (Inr (Suc k) :: unit + nat)) (\<lambda>k. Inr (False, k)) 0 = None"
  using solve_never_converging [of "\<lambda>k::nat. (Inr (Suc k) :: unit + nat)" "\<lambda>k. Inr (False, k)" 0]
  by simp

text \<open>
  C2. When the first \<open>finishSolve()\<close> reports convergence, \<open>solve()\<close> makes exactly one
  \<open>prepare()\<close> call and then exactly one \<open>finishSolve()\<close> call and returns \<open>true\<close>, in
  the state that \<open>finishSolve\<close> left. And whenever \<open>solve()\<close> returns a value, the value
  is \<open>true\<close>, the last call made was a \<open>finishSolve\<close> that returned \<open>true\<close>, and every
  earlier round was a \<open>prepare\<close> followed by a \<open>finishSolve\<close> that returned \<open>false\<close>.
\<close>

theorem solve_converged_first_call:
  "(prepare s = Inr s1 \<and> finishSolve s1 = Inr (True, s2)
      \<longrightarrow> solve prepare finishSolve s = Some (Inr (True, s2, [Prepare, FinishSolve True])))
   \<and> (solve prepare finishSolve s = Some (Inr (b, s', calls'))
      \<longrightarrow> b \<and> (\<exists>n s1. calls' = concat (replicate n [Prepare, FinishSolve False])
                              @ [Prepare, FinishSolve True]
                        \<and> finishSolve s1 = Inr (True, s')))"
proof (intro conjI impI)
  assume "prepare s = Inr s1 \<and> finishSolve s1 = Inr (True, s2)"
  then show "solve prepare finishSolve s = Some (Inr (True, s2, [Prepare, FinishSolve True]))"
    by (simp add: solve_def solve_loop.simps)
next
  assume "solve prepare finishSolve s = Some (Inr (b, s', calls'))"
  then have run: "solve_loop prepare finishSolve False s [] = Some (Inr (b, s', calls'))"
    by (simp add: solve_def)
  from solve_loop_returns[OF run] show b by simp
  from solve_loop_returns[OF run]
  show "\<exists>n s1. calls' = concat (replicate n [Prepare, FinishSolve False])
                              @ [Prepare, FinishSolve True]
                        \<and> finishSolve s1 = Inr (True, s')" by simp
qed

theorem solve_converged_first_call_witness:
  "solve (\<lambda>k::nat. (Inr (Suc k) :: unit + nat)) (\<lambda>k. Inr (True, k + 10)) 0
     = Some (Inr (True, 11, [Prepare, FinishSolve True]))
   \<and> (\<exists>n s1. [Prepare, FinishSolve True] = concat (replicate n [Prepare, FinishSolve False])
                              @ [Prepare, FinishSolve True]
        \<and> (Inr (True, s1 + 10) :: unit + bool \<times> nat) = Inr (True, 11))"
proof -
  let ?p = "\<lambda>k::nat. (Inr (Suc k) :: unit + nat)"
  let ?f = "\<lambda>k::nat. (Inr (True, k + 10) :: unit + bool \<times> nat)"
  note th = solve_converged_first_call [of ?p 0 1 ?f 11 True 11 "[Prepare, FinishSolve True]"]
  have run: "solve ?p ?f 0 = Some (Inr (True, 11, [Prepare, FinishSolve True]))"
    using th by simp
  with th show ?thesis by simp
qed

text \<open>
  C5 as stated fails: on a solver whose backend has completed no iteration, each of the
  six accessors returns what the backend's accessor returns; none of them fails.
\<close>

theorem accessors_counterexample:
  "iterations_done fresh_stub = 0
   \<and> getSolution (\<lambda>b. Inr (policy b)) stub_solver = Inr []
   \<and> getStateTrajectory (\<lambda>b. Inr (states b)) stub_solver = Inr []
   \<and> getControlTrajectory (\<lambda>b. Inr (controls b)) stub_solver = Inr []
   \<and> getTimeArray (\<lambda>b. Inr (time_stamps b)) stub_solver = Inr []
   \<and> getTimeHorizon (\<lambda>b. Inr (horizon b)) stub_solver = Inr 0
   \<and> getCost (\<lambda>b. Inr (cost b)) stub_solver = Inr 0"
  by (simp add: fresh_stub_def stub_solver_def arrow_def getSolution_def
      getStateTrajectory_def getControlTrajectory_def getTimeArray_def getTimeHorizon_def
      getCost_def)

text \<open>
  C5, amended. Each of the six read accessors forwards to the backend's accessor of the
  same name and returns exactly its outcome, the value it returns or the exception it
  throws, in every state of the backend; the shell itself makes no check that an
  iteration has completed.
\<close>

theorem accessors_forward:
  assumes "nlocBackend_m this = Some b"
  shows "getSolution f1 this = (case f1 b of Inl x \<Rightarrow> Inl (thrown x) | Inr v \<Rightarrow> Inr v)
   \<and> getStateTrajectory f2 this = (case f2 b of Inl x \<Rightarrow> Inl (thrown x) | Inr v \<Rightarrow> Inr v)
   \<and> getControlTrajectory f3 this = (case f3 b of Inl x \<Rightarrow> Inl (thrown x) | Inr v \<Rightarrow> Inr v)
   \<and> getTimeArray f4 this = (case f4 b of Inl x \<Rightarrow> Inl (thrown x) | Inr v \<Rightarrow> Inr v)
   \<and> getTimeHorizon f5 this = (case f5 b of Inl x \<Rightarrow> Inl (thrown x) | Inr v \<Rightarrow> Inr v)
   \<and> getCost f6 this = (case f6 b of Inl x \<Rightarrow> Inl (thrown x) | Inr v \<Rightarrow> Inr v)"
  using assms
  by (simp add: arrow_def getSolution_def getStateTrajectory_def getControlTrajectory_def
      getTimeArray_def getTimeHorizon_def getCost_def)

theorem accessors_forward_witness:
  "nlocBackend_m (stub_solver\<lparr>nlocBackend_m := Some (fresh_stub\<lparr>iterations_done := 3, cost := 7\<rparr>)\<rparr>)
     = Some (fresh_stub\<lparr>iterations_done := 3, cost := 7\<rparr>)
   \<and> getCost (\<lambda>b. if iterations_done b = 0 then Inl () else Inr (cost b))
      (stub_solver\<lparr>nlocBackend_m := Some (fresh_stub\<lparr>iterations_done := 3, cost := 7\<rparr>)\<rparr>)
     = Inr 7"
  using accessors_forward
    [of "stub_solver\<lparr>nlocBackend_m := Some (fresh_stub\<lparr>iterations_done := 3, cost := 7\<rparr>)\<rparr>"
        "fresh_stub\<lparr>iterations_done := 3, cost := 7\<rparr>"
        "\<lambda>b. Inr (policy b) :: unit + int list" "\<lambda>b. Inr (states b) :: unit + int list"
        "\<lambda>b. Inr (controls b) :: unit + int list"
        "\<lambda>b. Inr (time_stamps b) :: unit + int list" "\<lambda>b. Inr (horizon b) :: unit + int"
        "\<lambda>b. if iterations_done b = 0 then Inl () else Inr (cost b)"]
  by (simp add: fresh_stub_def)

section \<open>Properties of the modelled parts\<close>

text \<open>
  C4. \<open>configure(settings)\<close> fails, with ConfigurationError, exactly when \<open>dt \<le> 0\<close> or a
  dimension of the settings differs from \<open>STATE_DIM\<close> or \<open>CONTROL_DIM\<close>; otherwise it stores
  the settings and hands them to the backend. So whatever settings a successful call
  has stored have a positive \<open>dt\<close>.
\<close>

theorem configure_validates:
  "(configure N M bc st this = Inl ConfigurationError
      \<longleftrightarrow> dt_m st \<le> 0 \<or> state_dim st \<noteq> N \<or> control_dim st \<noteq> M)
   \<and> ((\<exists>e. configure N M bc st this = Inl e)
      \<longleftrightarrow> dt_m st \<le> 0 \<or> state_dim st \<noteq> N \<or> control_dim st \<noteq> M)
   \<and> (0 < dt_m st \<and> state_dim st = N \<and> control_dim st = M
      \<longrightarrow> configure N M bc st this
            = Inr (this\<lparr>stored_settings := Some st, backend := bc st (backend this)\<rparr>))
   \<and> (\<forall>this'. configure N M bc st this = Inr this'
      \<longrightarrow> stored_settings this' = Some st \<and> 0 < dt_m st
          \<and> backend this' = bc st (backend this))"
  by (auto simp: configure_def)

theorem configure_validates_witness:
  "configure 2 1 (#)
      \<lparr>dt_m = 1 / 10, approximation_m = TUSTIN, state_dim = 2, control_dim = 1\<rparr>
      \<lparr>stored_settings = None, backend = []\<rparr>
     = Inr \<lparr>stored_settings =
              Some \<lparr>dt_m = 1 / 10, approximation_m = TUSTIN, state_dim = 2, control_dim = 1\<rparr>,
            backend = [\<lparr>dt_m = 1 / 10, approximation_m = TUSTIN, state_dim = 2, control_dim = 1\<rparr>]\<rparr>
   \<and> configure 2 1 (#)
      \<lparr>dt_m = 0, approximation_m = TUSTIN, state_dim = 2, control_dim = 1\<rparr>
      \<lparr>stored_settings = None, backend = []\<rparr>
     = Inl ConfigurationError
   \<and> configure 2 1 (#)
      \<lparr>dt_m = 1 / 10, approximation_m = TUSTIN, state_dim = 3, control_dim = 1\<rparr>
      \<lparr>stored_settings = None, backend = []\<rparr>
     = Inl ConfigurationError"
  using configure_validates
      [of 2 1 "(#)" "\<lparr>dt_m = 1 / 10, approximation_m = TUSTIN, state_dim = 2, control_dim = 1\<rparr>"
          "\<lparr>stored_settings = None, backend = []\<rparr>"]
    configure_validates
      [of 2 1 "(#)" "\<lparr>dt_m = 0, approximation_m = TUSTIN, state_dim = 2, control_dim = 1\<rparr>"
          "\<lparr>stored_settings = None, backend = []\<rparr>"]
    configure_validates
      [of 2 1 "(#)" "\<lparr>dt_m = 1 / 10, approximation_m = TUSTIN, state_dim = 3, control_dim = 1\<rparr>"
          "\<lparr>stored_settings = None, backend = []\<rparr>"]
  by simp

text \<open>
  The inverse on two-by-two matrices: the determinant is \<open>ad - bc\<close>, and when it is not
  zero the matrix that \<open>mat_inverse\<close> returns is a two-sided inverse.
\<close>

lemma det_2x2: "det [[a, b], [c, d]] = a * d - b * c"
  by (simp add: minor_def upt_conv_Cons)

lemma mat_inverse_2x2_correct:
  assumes nz: "a * d - b * c \<noteq> 0"
  shows "\<exists>X. mat_inverse [[a, b], [c, d]] = Some X
           \<and> mat_mul [[a, b], [c, d]] X = mat_identity 2
           \<and> mat_mul X [[a, b], [c, d]] = mat_identity 2"
proof -
  define D where "D = a * d - b * c"
  have D: "D \<noteq> 0" using nz by (simp add: D_def)
  have inv: "mat_inverse [[a, b], [c, d]] = Some [[d / D, - b / D], [- c / D, a / D]]"
    using nz by (simp add: mat_inverse_def det_2x2 upt_conv_Cons D_def) (simp add: minor_def upt_conv_Cons)
  have one: "(a * d - b * c) / D = 1" "(d * a - b * c) / D = 1" "(a * d - c * b) / D = 1"
    using D by (simp_all add: D_def mult.commute)
  have e1: "a * (d / D) + b * (- c / D) = 1"
    using one(1) by (simp add: diff_divide_distrib)
  have e2: "a * (- b / D) + b * (a / D) = 0"
    by (simp add: mult.commute)
  have e3: "c * (d / D) + d * (- c / D) = 0"
    by (simp add: mult.commute)
  have e4: "c * (- b / D) + d * (a / D) = 1"
    using one(1) by (simp add: diff_divide_distrib mult.commute)
  have f1: "d / D * a + - b / D * c = 1"
    using one(1) by (simp add: diff_divide_distrib mult.commute)
  have f2: "d / D * b + - b / D * d = 0"
    by (simp add: mult.commute)
  have f3: "- c / D * a + a / D * c = 0"
    by (simp add: mult.commute)
  have f4: "- c / D * b + a / D * d = 1"
    using one(1) by (simp add: diff_divide_distrib mult.commute)
  have "mat_mul [[a, b], [c, d]] [[d / D, - b / D], [- c / D, a / D]] = mat_identity 2"
    using e1 e2 e3 e4 by (simp add: mat_mul_def mat_identity_def cols_def upt_conv_Cons)
  moreover have "mat_mul [[d / D, - b / D], [- c / D, a / D]] [[a, b], [c, d]] = mat_identity 2"
    using f1 f2 f3 f4 by (simp add: mat_mul_def mat_identity_def cols_def upt_conv_Cons)
  ultimately show ?thesis using inv by simp
qed

text \<open>
  C6. With the BackwardEuler scheme \<open>getAandB\<close> raises SingularMatrixError whenever
  \<open>I - dt\<cdot>A_c\<close> is singular, and with the Tustin scheme whenever \<open>I - dt/2\<cdot>A_c\<close> is; the
  error is the outcome of the call, and no pair \<open>(A, B)\<close> is returned in its place.
\<close>

theorem getAandB_singular:
  assumes "linearSystem this x u n = (Ac, Bc)"
  shows "(approximation_m (settings this) = BACKWARD_EULER
          \<and> det (mat_sub (mat_identity (length Ac)) (mat_scale (dt_m (settings this)) Ac)) = 0
        \<longrightarrow> getAandB se this x u x_next n numSteps = Inl SingularMatrixError
            \<and> (\<nexists>AB. getAandB se this x u x_next n numSteps = Inr AB))
     \<and> (approximation_m (settings this) = TUSTIN
          \<and> det (mat_sub (mat_identity (length Ac)) (mat_scale (dt_m (settings this) / 2) Ac)) = 0
        \<longrightarrow> getAandB se this x u x_next n numSteps = Inl SingularMatrixError
            \<and> (\<nexists>AB. getAandB se this x u x_next n numSteps = Inr AB))"
  using assms
  by (simp add: getAandB_def discretize_def backwardEuler_def tustin_def mat_inverse_def)

theorem getAandB_singular_witness:
  "getAandB (\<lambda>dt Ac Bc. forwardEuler dt Ac Bc)
      \<lparr>xSubstep_m = None, uSubstep_m = None,
        settings = SensitivityApproximationSettings 1 BACKWARD_EULER,
        linearSystem = (\<lambda>x u n. ([[1, 0], [0, 2]], [[0], [1]]))\<rparr> () () () 0 1
     = Inl SingularMatrixError
   \<and> getAandB (\<lambda>dt Ac Bc. forwardEuler dt Ac Bc)
      \<lparr>xSubstep_m = None, uSubstep_m = None,
        settings = SensitivityApproximationSettings 1 TUSTIN,
        linearSystem = (\<lambda>x u n. ([[1, 0], [0, 2]], [[0], [1]]))\<rparr> () () () 0 1
     = Inl SingularMatrixError"
proof -
  have d1: "det (mat_sub (mat_identity (Suc (Suc 0))) (mat_scale 1 [[1, 0], [0, 2]])) = 0"
    by (simp add: mat_sub_def mat_identity_def mat_scale_def minor_def upt_conv_Cons)
  have d2: "det (mat_sub (mat_identity (Suc (Suc 0))) (mat_scale (1 / 2) [[1, 0], [0, 2]])) = 0"
    by (simp add: mat_sub_def mat_identity_def mat_scale_def minor_def upt_conv_Cons)
  show ?thesis
    using getAandB_singular
      [of "\<lparr>xSubstep_m = None, uSubstep_m = None,
             settings = SensitivityApproximationSettings 1 BACKWARD_EULER,
             linearSystem = (\<lambda>x u n. ([[1, 0], [0, 2]], [[0], [1]]))\<rparr>"
          "()" "()" 0 "[[1, 0], [0, 2]]" "[[0], [1]]" "\<lambda>dt Ac Bc. forwardEuler dt Ac Bc" "()" 1]
      getAandB_singular
      [of "\<lparr>xSubstep_m = None, uSubstep_m = None,
             settings = SensitivityApproximationSettings 1 TUSTIN,
             linearSystem = (\<lambda>x u n. ([[1, 0], [0, 2]], [[0], [1]]))\<rparr>"
          "()" "()" 0 "[[1, 0], [0, 2]]" "[[0], [1]]" "\<lambda>dt Ac Bc. forwardEuler dt Ac Bc" "()" 1]
      d1 d2
    by (simp add: SensitivityApproximationSettings_def)
qed

text \<open>
  The exponential of a nilpotent matrix is a finite sum: the series stops where the
  powers become zero.
\<close>

lemma suminf_cut:
  fixes f :: "nat \<Rightarrow> real"
  assumes "\<And>k. n \<le> k \<Longrightarrow> f k = 0"
  shows "(\<Sum>k. f k) = (\<Sum>k<n. f k)"
  by (rule suminf_finite) (use assms in auto)

lemma mat_pow_nilpotent_2: "mat_pow [[0, c], [0, 0]] (Suc (Suc k)) = [[0, 0], [0, 0]]"
proof (induction k)
  case 0
  show ?case
    by (simp add: mat_mul_def mat_identity_def cols_def upt_conv_Cons)
next
  case (Suc k)
  have "mat_pow [[0, c], [0, 0]] (Suc (Suc (Suc k)))
          = mat_mul [[0, c], [0, 0]] (mat_pow [[0, c], [0, 0]] (Suc (Suc k)))"
    by (simp only: mat_pow.simps)
  also have "\<dots> = mat_mul [[0, c], [0, 0]] [[0, 0], [0, 0]]"
    by (simp only: Suc.IH)
  also have "\<dots> = [[0, 0], [0, 0]]"
    by (simp add: mat_mul_def cols_def upt_conv_Cons)
  finally show ?case .
qed

lemma mat_exp_nilpotent_2: "mat_exp [[0, c], [0, 0]] = [[1, c], [0, 1]]"
proof -
  let ?M = "[[0, c], [0, 0 :: real]]"
  have cut: "(\<Sum>k. mat_pow ?M k ! i ! j / fact k) = (\<Sum>k<2. mat_pow ?M k ! i ! j / fact k)"
    if "i < 2" "j < 2" for i j
  proof (rule suminf_cut)
    fix k :: nat assume "2 \<le> k"
    then obtain m where k: "k = Suc (Suc m)" by (metis add_2_eq_Suc le_Suc_ex)
    from that have "[[0, 0], [0, 0::real]] ! i ! j = 0"
      by (auto simp: less_Suc_eq numeral_2_eq_2)
    then show "mat_pow ?M k ! i ! j / fact k = 0"
      unfolding k mat_pow_nilpotent_2 by simp
  qed
  have p0: "mat_pow ?M 0 = [[1, 0], [0, 1]]"
    by (simp add: mat_identity_def upt_conv_Cons)
  have p1: "mat_pow ?M (Suc 0) = ?M"
    by (simp add: mat_identity_def mat_mul_def cols_def upt_conv_Cons)
  have s2: "(\<Sum>k<2. f k) = f 0 + f (Suc 0)" for f :: "nat \<Rightarrow> real"
    by (simp add: numeral_2_eq_2)
  show ?thesis
    by (simp add: mat_exp_def upt_conv_Cons cut s2 p0 p1 del: mat_pow.simps)
qed

lemma mat_pow_nilpotent_3:
  "mat_pow [[0, a, 0], [0, 0, b], [0, 0, 0]] (Suc (Suc (Suc k)))
     = [[0, 0, 0], [0, 0, 0], [0, 0, 0]]"
proof (induction k)
  case 0
  show ?case
    by (simp add: mat_mul_def mat_identity_def cols_def upt_conv_Cons)
next
  case (Suc k)
  let ?M = "[[0, a, 0], [0, 0, b], [0, 0, 0 :: real]]"
  have "mat_pow ?M (Suc (Suc (Suc (Suc k)))) = mat_mul ?M (mat_pow ?M (Suc (Suc (Suc k))))"
    by (simp only: mat_pow.simps)
  also have "\<dots> = mat_mul ?M [[0, 0, 0], [0, 0, 0], [0, 0, 0]]"
    by (simp only: Suc.IH)
  also have "\<dots> = [[0, 0, 0], [0, 0, 0], [0, 0, 0]]"
    by (simp add: mat_mul_def cols_def upt_conv_Cons)
  finally show ?case .
qed

lemma mat_exp_nilpotent_3:
  "mat_exp [[0, a, 0], [0, 0, b], [0, 0, 0]]
     = [[1, a, a * b / 2], [0, 1, b], [0, 0, 1]]"
proof -
  let ?M = "[[0, a, 0], [0, 0, b], [0, 0, 0 :: real]]"
  have cut: "(\<Sum>k. mat_pow ?M k ! i ! j / fact k) = (\<Sum>k<3. mat_pow ?M k ! i ! j / fact k)"
    if "i < 3" "j < 3" for i j
  proof (rule suminf_cut)
    fix k :: nat assume "3 \<le> k"
    then obtain m where k: "k = Suc (Suc (Suc m))"
      by (metis add_Suc le_Suc_ex numeral_3_eq_3)
    from that have "[[0, 0, 0], [0, 0, 0], [0, 0, 0::real]] ! i ! j = 0"
      by (auto simp: less_Suc_eq numeral_3_eq_3)
    then show "mat_pow ?M k ! i ! j / fact k = 0"
      unfolding k mat_pow_nilpotent_3 by simp
  qed
  have p0: "mat_pow ?M 0 = [[1, 0, 0], [0, 1, 0], [0, 0, 1]]"
    by (simp add: mat_identity_def upt_conv_Cons)
  have p1: "mat_pow ?M (Suc 0) = ?M"
    by (simp add: mat_identity_def mat_mul_def cols_def upt_conv_Cons)
  have p2: "mat_pow ?M (Suc (Suc 0)) = [[0, 0, a * b], [0, 0, 0], [0, 0, 0]]"
    by (simp add: mat_identity_def mat_mul_def cols_def upt_conv_Cons)
  have s3: "(\<Sum>k<3. f k) = f 0 + f (Suc 0) + f (Suc (Suc 0))" for f :: "nat \<Rightarrow> real"
    by (simp add: numeral_3_eq_3)
  have f2: "fact (Suc (Suc 0)) = (2::real)"
    by simp
  show ?thesis
    by (simp add: mat_exp_def upt_conv_Cons cut s3 p0 p1 p2 f2 del: mat_pow.simps fact_Suc)
qed

text \<open>
  The one-by-one case: the series is the exponential function, and the scheme gives
  \<open>A_d = e^(a\<cdot>dt)\<close> with \<open>B_d = (e^(a\<cdot>dt) - 1)/a\<cdot>b\<close> for \<open>a \<noteq> 0\<close> and \<open>B_d = dt\<cdot>b\<close> for
  \<open>a = 0\<close>, the scalar case of section 8.
\<close>

lemma mat_pow_scalar: "mat_pow [[x]] k = [[x ^ k]]"
  by (induction k) (simp_all add: mat_identity_def mat_mul_def cols_def)

lemma mat_exp_scalar: "mat_exp [[x]] = [[exp x]]"
proof -
  have "(\<Sum>k. mat_pow [[x]] k ! 0 ! 0 / fact k) = (\<Sum>k. x ^ k /\<^sub>R fact k)"
    by (simp add: mat_pow_scalar scaleR_conv_of_real divide_inverse mult.commute)
  then show ?thesis
    by (simp add: mat_exp_def exp_def)
qed

lemma matrixExponential_scalar:
  "a \<noteq> 0 \<Longrightarrow> matrixExponential dt [[a]] [[b]]
       = Inr ([[exp (dt * a)]], [[(exp (dt * a) - 1) / a * b]])"
  by (simp add: matrixExponential_def mat_inverse_def minor_def mat_scale_def mat_exp_scalar
      mat_mul_def mat_sub_def mat_identity_def cols_def)

lemma matrixExponential_scalar_zero:
  "matrixExponential dt [[0]] [[b]] = Inr ([[1]], [[dt * b]])"
proof -
  have aug: "mat_scale dt (augmented [[0]] [[b]]) = [[0, dt * b], [0, 0]]"
    by (simp add: mat_scale_def augmented_def cols_def)
  have sc: "mat_scale dt [[0]] = [[0]]"
    by (simp add: mat_scale_def)
  have e0: "mat_exp [[0]] = [[1]]"
    by (simp add: mat_exp_scalar)
  show ?thesis
    by (simp add: matrixExponential_def mat_inverse_def sc e0 aug mat_exp_nilpotent_2)
qed

text \<open>
  The double integrator \<open>A_c = [[0,1],[0,0]]\<close>, \<open>B_c = [[0],[1]]\<close> under both schemes, for
  any \<open>dt\<close>. \<open>A_c\<close> is singular, so MatrixExponential takes \<open>B_d\<close> from the exponential of
  the augmented matrix.
\<close>

lemma forwardEuler_double_integrator:
  "forwardEuler dt [[0, 1], [0, 0]] [[0], [1]] = Inr ([[1, dt], [0, 1]], [[0], [dt]])"
  by (simp add: forwardEuler_def mat_add_def mat_scale_def mat_identity_def upt_conv_Cons)

lemma matrixExponential_double_integrator:
  "matrixExponential dt [[0, 1], [0, 0]] [[0], [1]]
     = Inr ([[1, dt], [0, 1]], [[dt * dt / 2], [dt]])"
proof -
  have inv: "mat_inverse [[0, 1], [0, 0]] = None"
    by (simp add: mat_inverse_def minor_def upt_conv_Cons)
  have sc: "mat_scale dt [[0, 1], [0, 0]] = [[0, dt], [0, 0]]"
    by (simp add: mat_scale_def)
  have aug: "mat_scale dt (augmented [[0, 1], [0, 0]] [[0], [1]])
               = [[0, dt, 0], [0, 0, dt], [0, 0, 0]]"
    by (simp add: mat_scale_def augmented_def cols_def numeral_3_eq_3)
  show ?thesis
    by (simp add: matrixExponential_def inv sc aug mat_exp_nilpotent_2 mat_exp_nilpotent_3)
qed

text \<open>
  C8 as stated fails: for the double integrator with \<open>dt = 0.1\<close> the MatrixExponential
  scheme does not give \<open>B_d = [[0],[0.1]]\<close>, and its result differs from ForwardEuler's.
\<close>

theorem double_integrator_counterexample:
  "matrixExponential (1/10) [[0, 1], [0, 0]] [[0], [1]]
     \<noteq> Inr ([[1, 1/10], [0, 1]], [[0], [1/10]])
   \<and> matrixExponential (1/10) [[0, 1], [0, 0]] [[0], [1]]
     \<noteq> forwardEuler (1/10) [[0, 1], [0, 0]] [[0], [1]]"
  by (simp add: forwardEuler_double_integrator matrixExponential_double_integrator)

text \<open>
  C8, amended. For \<open>STATE_DIM = 2\<close>, \<open>CONTROL_DIM = 1\<close>, \<open>A_c = [[0,1],[0,0]]\<close>,
  \<open>B_c = [[0],[1]]\<close> and \<open>dt = 0.1\<close>, ForwardEuler yields \<open>A_d = [[1,0.1],[0,1]]\<close> and
  \<open>B_d = [[0],[0.1]]\<close>; MatrixExponential yields the same \<open>A_d\<close>, exactly, and
  \<open>B_d = [[0.005],[0.1]]\<close>. The two schemes agree on \<open>A_d\<close> and differ on \<open>B_d\<close>.
\<close>

theorem double_integrator_discretized:
  "discretize se FORWARD_EULER (1/10) [[0, 1], [0, 0]] [[0], [1]]
     = Inr ([[1, 1/10], [0, 1]], [[0], [1/10]])
   \<and> discretize se MATRIX_EXPONENTIAL (1/10) [[0, 1], [0, 0]] [[0], [1]]
     = Inr ([[1, 1/10], [0, 1]], [[1/200], [1/10]])"
  by (simp add: discretize_def forwardEuler_double_integrator
      matrixExponential_double_integrator)

end
